theory Spec2Isabelle
  imports Complex_Main
begin

section \<open>Scores\<close>

text \<open>
  Every analyzer of \<^verbatim>\<open>app.py\<close> keeps a dictionary
  \<^verbatim>\<open>scoring = {'points': 0, 'max_points': M}\<close> and ends with
  \<^verbatim>\<open>(scoring['points'] / scoring['max_points']) * 100 if scoring['max_points'] > 0 else 0\<close>.
  Points are Python integers; the quotient is a Python float, read here as the real number it
  approximates.
\<close>

definition category_score :: "int \<Rightarrow> int \<Rightarrow> real" where
  "category_score points max_points =
     (if max_points > 0 then (real_of_int points / real_of_int max_points) * 100 else 0)"

text \<open>
  The weighted average of the main script (lines 647 to 651):
  \<^verbatim>\<open>weights = {'meta': 0.20, 'content': 0.35, 'links': 0.15, 'tech': 0.30}\<close>.
\<close>

definition weight_meta :: real where "weight_meta = 0.20"
definition weight_content :: real where "weight_content = 0.35"
definition weight_links :: real where "weight_links = 0.15"
definition weight_tech :: real where "weight_tech = 0.30"

definition overall_score :: "real \<Rightarrow> real \<Rightarrow> real \<Rightarrow> real \<Rightarrow> real" where
  "overall_score meta_score content_score link_score tech_score =
     meta_score * weight_meta + content_score * weight_content
       + link_score * weight_links + tech_score * weight_tech"

section \<open>Python strings\<close>

text \<open>
  Text is modelled as \<^typ>\<open>string\<close> over the ASCII range, where the methods of
  \<^verbatim>\<open>str\<close> and the classes \<^verbatim>\<open>\s\<close> and \<^verbatim>\<open>\w\<close> of \<^verbatim>\<open>re\<close> are as
  below. A byte above 127 is kept as a word character and left alone by \<^verbatim>\<open>lower\<close>.
\<close>

definition is_space :: "char \<Rightarrow> bool" where
  "is_space c =
     (let n = (of_char c :: nat) in n = 32 \<or> (9 \<le> n \<and> n \<le> 13) \<or> (28 \<le> n \<and> n \<le> 31))"

definition is_word_char :: "char \<Rightarrow> bool" where
  "is_word_char c =
     (let n = (of_char c :: nat)
      in (48 \<le> n \<and> n \<le> 57) \<or> (65 \<le> n \<and> n \<le> 90) \<or> (97 \<le> n \<and> n \<le> 122)
         \<or> n = 95 \<or> 128 \<le> n)"

definition lower_char :: "char \<Rightarrow> char" where
  "lower_char c =
     (let n = (of_char c :: nat) in if 65 \<le> n \<and> n \<le> 90 then char_of (n + 32) else c)"

definition str_lower :: "string \<Rightarrow> string" where
  "str_lower s = map lower_char s"

definition str_strip :: "string \<Rightarrow> string" where
  "str_strip s = rev (dropWhile is_space (rev (dropWhile is_space s)))"

text \<open>\<^verbatim>\<open>s.split()\<close>: the maximal runs of non-whitespace characters.\<close>

fun str_split_from :: "string \<Rightarrow> string \<Rightarrow> string list" where
  "str_split_from cur [] = (if cur = [] then [] else [cur])"
| "str_split_from cur (c # cs) =
     (if is_space c then (if cur = [] then str_split_from [] cs else cur # str_split_from [] cs)
      else str_split_from (cur @ [c]) cs)"

definition str_split :: "string \<Rightarrow> string list" where
  "str_split s = str_split_from [] s"

text \<open>\<^verbatim>\<open>sep.join(parts)\<close>.\<close>

fun str_join :: "string \<Rightarrow> string list \<Rightarrow> string" where
  "str_join sep [] = []"
| "str_join sep [p] = p"
| "str_join sep (p # q # ps) = p @ sep @ str_join sep (q # ps)"

text \<open>\<^verbatim>\<open>re.sub(r'\s+', ' ', text)\<close>; the flag says that the previous character was whitespace.\<close>

fun collapse_spaces :: "bool \<Rightarrow> string \<Rightarrow> string" where
  "collapse_spaces in_run [] = []"
| "collapse_spaces in_run (c # cs) =
     (if is_space c then (if in_run then collapse_spaces True cs
                          else CHR '' '' # collapse_spaces True cs)
      else c # collapse_spaces False cs)"

text \<open>
  \<^verbatim>\<open>clean_text\<close> (lines 62 to 67): lower case, drop everything but word characters,
  whitespace and hyphens, collapse whitespace, strip.
\<close>

definition clean_text :: "string \<Rightarrow> string" where
  "clean_text text =
     (let text1 = str_lower text;
          text2 = filter (\<lambda>c. is_word_char c \<or> is_space c \<or> c = CHR ''-'') text1
      in str_strip (collapse_spaces False text2))"

section \<open>The parsed document\<close>

text \<open>
  The \<^verbatim>\<open>BeautifulSoup\<close> object is a tree of tags and strings. A tag has a name, a
  dictionary of attributes and children; the soup itself is the root tag. The strings of the
  tree are the ones \<^verbatim>\<open>get_text\<close> yields.
\<close>

datatype node = Tag string "(string \<times> string) list" "node list" | NavigableString string

text \<open>All nodes below a node, in document order.\<close>

fun descendants :: "node \<Rightarrow> node list" where
  "descendants (Tag n a cs) = concat (map (\<lambda>c. c # descendants c) cs)"
| "descendants (NavigableString s) = []"

fun tag_named :: "string list \<Rightarrow> node \<Rightarrow> bool" where
  "tag_named names (Tag n a cs) = (n \<in> set names)"
| "tag_named names (NavigableString s) = False"

text \<open>\<^verbatim>\<open>soup.find_all([names])\<close> and \<^verbatim>\<open>soup.find(name)\<close>.\<close>

definition find_all :: "string list \<Rightarrow> node \<Rightarrow> node list" where
  "find_all names soup = filter (tag_named names) (descendants soup)"

definition soup_find :: "string \<Rightarrow> node \<Rightarrow> node option" where
  "soup_find nm soup = (case find_all [nm] soup of [] \<Rightarrow> None | t # _ \<Rightarrow> Some t)"

fun tag_name :: "node \<Rightarrow> string" where
  "tag_name (Tag n a cs) = n"
| "tag_name (NavigableString s) = []"

text \<open>\<^verbatim>\<open>tag.get(key)\<close> and \<^verbatim>\<open>tag.get(key, default)\<close>.\<close>

fun get_attr :: "node \<Rightarrow> string \<Rightarrow> string option" where
  "get_attr (Tag n a cs) k = map_of a k"
| "get_attr (NavigableString s) k = None"

definition get_attr_default :: "node \<Rightarrow> string \<Rightarrow> string \<Rightarrow> string" where
  "get_attr_default t k d = (case get_attr t k of None \<Rightarrow> d | Some v \<Rightarrow> v)"

fun node_strings :: "node list \<Rightarrow> string list" where
  "node_strings [] = []"
| "node_strings (Tag n a cs # ns) = node_strings ns"
| "node_strings (NavigableString s # ns) = s # node_strings ns"

text \<open>
  \<^verbatim>\<open>tag.get_text(separator, strip=True)\<close>: every string below the tag is stripped, the
  empty ones are dropped, the rest joined.
\<close>

definition get_text_strip :: "string \<Rightarrow> node \<Rightarrow> string" where
  "get_text_strip separator t =
     str_join separator (filter (\<lambda>s. s \<noteq> []) (map str_strip (node_strings (descendants t))))"

text \<open>
  \<^verbatim>\<open>for element in body([names]): element.decompose()\<close> removes every tag of these
  names below \<^verbatim>\<open>body\<close> from the tree.
\<close>

fun decompose_all :: "string list \<Rightarrow> node \<Rightarrow> node" where
  "decompose_all names (Tag n a cs) =
     Tag n a (map (decompose_all names) (filter (\<lambda>c. \<not> tag_named names c) cs))"
| "decompose_all names (NavigableString s) = NavigableString s"

definition removed_tags :: "string list" where
  "removed_tags = [''script'', ''style'', ''nav'', ''footer'', ''aside'']"

text \<open>
  The body is \<^verbatim>\<open>soup.find('body')\<close>, the first in document order. The removal changes the
  soup itself: the functions below return the tree as it is afterwards, and whether a body
  was met.
\<close>

fun strip_body :: "node \<Rightarrow> node \<times> bool"
  and strip_body_list :: "node list \<Rightarrow> node list \<times> bool" where
  "strip_body (Tag n a cs) =
     (if n = ''body'' then (decompose_all removed_tags (Tag n a cs), True)
      else (case strip_body_list cs of (cs', b) \<Rightarrow> (Tag n a cs', b)))"
| "strip_body (NavigableString s) = (NavigableString s, False)"
| "strip_body_list [] = ([], False)"
| "strip_body_list (c # cs) =
     (case strip_body c of (c', b) \<Rightarrow>
        if b then (c' # cs, True)
        else (case strip_body_list cs of (cs', b') \<Rightarrow> (c' # cs', b')))"

text \<open>The soup after the removal: only its children are searched for the body.\<close>

fun soup_after_removal :: "node \<Rightarrow> node" where
  "soup_after_removal (Tag n a cs) = Tag n a (fst (strip_body_list cs))"
| "soup_after_removal (NavigableString s) = NavigableString s"

section \<open>On-page content\<close>

subsection \<open>Headings (lines 237 to 266)\<close>

text \<open>
  The dictionary \<^verbatim>\<open>content_data['headings']\<close> keeps its keys in insertion order;
  \<open>dict_append\<close> is \<^verbatim>\<open>if k not in d: d[k] = []\<close> followed by
  \<^verbatim>\<open>d[k].append(v)\<close>, and \<open>dict_get_list\<close> is \<^verbatim>\<open>d.get(k, [])\<close>.
\<close>

fun dict_append ::
    "string \<Rightarrow> string \<Rightarrow> (string \<times> string list) list \<Rightarrow> (string \<times> string list) list" where
  "dict_append k v [] = [(k, [v])]"
| "dict_append k v ((k', vs) # d) =
     (if k' = k then (k', vs @ [v]) # d else (k', vs) # dict_append k v d)"

definition dict_get_list :: "(string \<times> string list) list \<Rightarrow> string \<Rightarrow> string list" where
  "dict_get_list d k = (case map_of d k of None \<Rightarrow> [] | Some vs \<Rightarrow> vs)"

record heading_scan =
  headings :: "(string \<times> string list) list"
  has_h1 :: bool
  heading_hierarchy_ok :: bool
  last_level :: nat

definition heading_names :: "string list" where
  "heading_names = [''h1'', ''h2'', ''h3'', ''h4'', ''h5'', ''h6'']"

text \<open>\<^verbatim>\<open>int(h.name[1])\<close>, for a name that \<^verbatim>\<open>find_all\<close> returned.\<close>

definition heading_level :: "string \<Rightarrow> nat" where
  "heading_level nm = of_char (nm ! 1) - 48"

definition heading_scan_start :: heading_scan where
  "heading_scan_start =
     \<lparr>headings = [], has_h1 = False, heading_hierarchy_ok = True, last_level = 0\<rparr>"

text \<open>One round of the loop over \<^verbatim>\<open>heading_tags\<close>.\<close>

definition heading_step :: "heading_scan \<Rightarrow> node \<Rightarrow> heading_scan" where
  "heading_step st h =
     (let level = heading_level (tag_name h);
          text = get_text_strip [] h
      in if text = [] then st
         else \<lparr>headings = dict_append (tag_name h) text (headings st),
               has_h1 = (if tag_name h = ''h1'' then True else has_h1 st),
               heading_hierarchy_ok =
                 (if level > last_level st + 1 \<and> last_level st \<noteq> 0 then False
                  else heading_hierarchy_ok st),
               last_level = level\<rparr>)"

definition scan_headings :: "node \<Rightarrow> heading_scan" where
  "scan_headings soup = foldl heading_step heading_scan_start (find_all heading_names soup)"

text \<open>
  The points of lines 258 to 266 and the flag as it is after them: the second
  \<^verbatim>\<open>if\<close> reads the flag that the first may have cleared.
\<close>

definition heading_scoring :: "heading_scan \<Rightarrow> int \<times> bool" where
  "heading_scoring st =
     (let (p1, ok1) =
            (if has_h1 st
             then (if length (dict_get_list (headings st) ''h1'') > 1
                   then (0 + 5 - 2, False) else (0 + 5, heading_hierarchy_ok st))
             else (0, heading_hierarchy_ok st));
          p2 = (if ok1 \<and> has_h1 st then p1 + 3
                else if has_h1 st then p1 + 1
                else p1)
      in (p2, ok1))"

definition heading_points :: "node \<Rightarrow> int" where
  "heading_points soup = fst (heading_scoring (scan_headings soup))"

subsection \<open>Text, length and readability (lines 268 to 307)\<close>

definition MIN_CONTENT_LENGTH_WORDS :: nat where "MIN_CONTENT_LENGTH_WORDS = 300"
definition GOOD_READABILITY_THRESHOLD :: real where "GOOD_READABILITY_THRESHOLD = 60"
definition MAX_KEYWORDS_TO_SHOW :: nat where "MAX_KEYWORDS_TO_SHOW = 10"

text \<open>
  \<^verbatim>\<open>raw_text\<close>: the text of the body after the removal, or the empty text without a body.
\<close>

definition text_content_of :: "node \<Rightarrow> string" where
  "text_content_of soup =
     (case soup_find ''body'' soup of
        None \<Rightarrow> []
      | Some body \<Rightarrow> get_text_strip '' '' (decompose_all removed_tags body))"

definition word_count_of :: "node \<Rightarrow> nat" where
  "word_count_of soup = length (str_split (text_content_of soup))"

definition length_points :: "nat \<Rightarrow> int" where
  "length_points wc = (if wc \<ge> MIN_CONTENT_LENGTH_WORDS then 5 else if wc > 0 then 2 else 0)"

text \<open>
  \<^verbatim>\<open>textstat.flesch_reading_ease\<close> is a parameter: it gives a score or raises, and the
  \<^verbatim>\<open>except Exception\<close> of line 303 takes every exception (\<open>None\<close> here).
\<close>

datatype readability_desc =
  NotCalculated | Good real | Okay real | Difficult real | CalculationError | NotEnoughContent

definition readability :: "(string \<Rightarrow> real option) \<Rightarrow> nat \<Rightarrow> string
    \<Rightarrow> real option \<times> readability_desc \<times> int" where
  "readability flesch_reading_ease wc text =
     (if wc > 50 then
        (case flesch_reading_ease text of
           None \<Rightarrow> (None, CalculationError, 0)
         | Some score \<Rightarrow>
             if score \<ge> GOOD_READABILITY_THRESHOLD then (Some score, Good score, 5)
             else if score \<ge> 30 then (Some score, Okay score, 2)
             else (Some score, Difficult score, 0))
      else (None, NotEnoughContent, 0))"

subsection \<open>Keywords (lines 310 to 326)\<close>

definition stop_words :: "string list" where
  "stop_words = [''a'', ''an'', ''the'', ''and'', ''or'', ''but'', ''is'', ''in'', ''it'', ''of'',
     ''to'', ''on'', ''for'', ''with'', ''as'', ''by'', ''at'', ''this'', ''that'', ''i'', ''you'',
     ''he'', ''she'', ''we'', ''they'', ''be'', ''are'', ''was'', ''were'', ''has'', ''have'',
     ''had'', ''do'', ''does'', ''did'', ''will'', ''shall'', ''should'', ''can'', ''could'',
     ''may'', ''might'', ''must'', ''not'', ''no'', ''so'', ''if'', ''me'', ''my'', ''your'',
     ''our'', ''its'', ''-'', []]"

definition meaningful_words_of :: "string \<Rightarrow> string list" where
  "meaningful_words_of text =
     filter (\<lambda>word. word \<notin> set stop_words \<and> length word > 2) (str_split (clean_text text))"

text \<open>
  \<^verbatim>\<open>Counter(words)\<close> is a dictionary in insertion order: a word met for the first time
  goes to the end with count 1.
\<close>

fun counter_add :: "'a \<Rightarrow> ('a \<times> nat) list \<Rightarrow> ('a \<times> nat) list" where
  "counter_add w [] = [(w, 1)]"
| "counter_add w ((k, c) # d) = (if k = w then (k, c + 1) # d else (k, c) # counter_add w d)"

definition Counter :: "'a list \<Rightarrow> ('a \<times> nat) list" where
  "Counter ws = foldl (\<lambda>d w. counter_add w d) [] ws"

text \<open>
  \<^verbatim>\<open>most_common(n)\<close> is \<^verbatim>\<open>sorted(items, key=count, reverse=True)[:n]\<close>: a stable sort,
  so that items of equal count keep the order of the dictionary.
\<close>

definition most_common :: "nat \<Rightarrow> ('a \<times> nat) list \<Rightarrow> ('a \<times> nat) list" where
  "most_common n d = take n (sort_key (\<lambda>(w, c). - int c) d)"

text \<open>The loop of lines 321 to 323, for any bound \<open>k\<close> in place of the constant.\<close>

definition top_terms :: "nat \<Rightarrow> 'a list \<Rightarrow> ('a \<times> nat \<times> real) list" where
  "top_terms k meaningful_words =
     (if meaningful_words \<noteq> [] then
        (let word_counts = Counter meaningful_words;
             total_meaningful_words = length meaningful_words
         in map (\<lambda>(word, count).
                   (word, count,
                    if total_meaningful_words > 0
                    then (real count / real total_meaningful_words) * 100 else 0))
                (most_common k word_counts))
      else [])"

definition top_keywords_of :: "nat \<Rightarrow> string \<Rightarrow> (string \<times> nat \<times> real) list" where
  "top_keywords_of wc text =
     (if wc > 0 then top_terms MAX_KEYWORDS_TO_SHOW (meaningful_words_of text) else [])"

definition keyword_points :: "(string \<times> nat \<times> real) list \<Rightarrow> int" where
  "keyword_points top_keywords = (if top_keywords \<noteq> [] then 5 else 0)"

subsection \<open>Image alternative texts (lines 328 to 350)\<close>

datatype alt_status = present | missing

record image_alt_analysis =
  total :: nat
  with_alt :: nat
  missing_alt :: nat
  alt_tags :: "(string \<times> string option \<times> alt_status) list"

definition image_step :: "image_alt_analysis \<Rightarrow> node \<Rightarrow> image_alt_analysis" where
  "image_step an img =
     (let alt_text = str_strip (get_attr_default img ''alt'' []);
          src = get_attr_default img ''src'' ''No Source''
      in if alt_text \<noteq> []
         then an\<lparr>with_alt := with_alt an + 1,
                 alt_tags := alt_tags an @ [(src, Some alt_text, present)]\<rparr>
         else an\<lparr>missing_alt := missing_alt an + 1,
                 alt_tags := alt_tags an @ [(src, None, missing)]\<rparr>)"

definition analyze_images :: "node list \<Rightarrow> image_alt_analysis" where
  "analyze_images images =
     foldl image_step
       \<lparr>total = length images, with_alt = 0, missing_alt = 0, alt_tags = []\<rparr> images"

definition image_points :: "image_alt_analysis \<Rightarrow> int" where
  "image_points an =
     (if total an > 0 then
        (let alt_percentage = (real (with_alt an) / real (total an)) * 100
         in if alt_percentage \<ge> 90 then 4 else if alt_percentage \<ge> 50 then 2 else 0)
      else 4)"

subsection \<open>The analyzer\<close>

record content_data =
  cd_headings :: "(string \<times> string list) list"
  word_count :: nat
  readability_score :: "real option"
  readability_description :: readability_desc
  top_keywords :: "(string \<times> nat \<times> real) list"
  image_alts :: image_alt_analysis
  text_content :: string

text \<open>
  The images are looked up (line 329) after the body has lost its \<^verbatim>\<open>script\<close>,
  \<^verbatim>\<open>style\<close>, \<^verbatim>\<open>nav\<close>, \<^verbatim>\<open>footer\<close> and \<^verbatim>\<open>aside\<close> tags (line 273), in the same soup.
\<close>

definition images_found :: "node \<Rightarrow> node list" where
  "images_found soup = find_all [''img''] (soup_after_removal soup)"

definition content_points :: "(string \<Rightarrow> real option) \<Rightarrow> node \<Rightarrow> int" where
  "content_points flesch_reading_ease soup =
     (let text = text_content_of soup; wc = word_count_of soup
      in heading_points soup
         + length_points wc
         + snd (snd (readability flesch_reading_ease wc text))
         + keyword_points (top_keywords_of wc text)
         + image_points (analyze_images (images_found soup)))"

definition content_max_points :: int where "content_max_points = 30"

text \<open>
  \<^verbatim>\<open>analyze_on_page_content\<close> returns the data and the score; the third component is
  the soup as the call leaves it.
\<close>

definition analyze_on_page_content ::
    "(string \<Rightarrow> real option) \<Rightarrow> node \<Rightarrow> content_data \<times> real \<times> node" where
  "analyze_on_page_content flesch_reading_ease soup =
     (let text = text_content_of soup; wc = word_count_of soup;
          r = readability flesch_reading_ease wc text
      in (\<lparr>cd_headings = headings (scan_headings soup),
           word_count = wc,
           readability_score = fst r,
           readability_description = fst (snd r),
           top_keywords = top_keywords_of wc text,
           image_alts = analyze_images (images_found soup),
           text_content = text\<rparr>,
          category_score (content_points flesch_reading_ease soup) content_max_points,
          soup_after_removal soup))"

section \<open>Links\<close>

text \<open>
  \<^verbatim>\<open>urllib.parse\<close> is a parameter of the analyzers: \<^verbatim>\<open>urljoin\<close> and \<^verbatim>\<open>urlparse\<close> give a
  result or raise \<^verbatim>\<open>ValueError\<close>. Of the parse result the code reads the scheme and the
  network location.
\<close>

datatype exc = ValueError string

record parse_result =
  scheme :: string
  netloc :: string

record url_lib =
  urljoin :: "string \<Rightarrow> string \<Rightarrow> exc + string"
  urlparse :: "string \<Rightarrow> exc + parse_result"

text \<open>\<^verbatim>\<open>get_domain\<close> (lines 55 to 60) turns every exception into \<^verbatim>\<open>None\<close>.\<close>

definition get_domain :: "url_lib \<Rightarrow> string \<Rightarrow> string option" where
  "get_domain lib url = (case urlparse lib url of Inl e \<Rightarrow> None | Inr p \<Rightarrow> Some (netloc p))"

datatype link_type = Internal | External | Other

record link_info =
  li_href :: string
  li_text :: string
  li_type :: link_type

record link_data =
  internal :: "string list"
  external :: "string list"
  internal_count :: nat
  external_count :: nat
  anchor_texts :: "(string \<times> nat) list"
  links_all :: "link_info list"

definition link_data_start :: link_data where
  "link_data_start =
     \<lparr>internal = [], external = [], internal_count = 0, external_count = 0,
      anchor_texts = [], links_all = []\<rparr>"

text \<open>\<^verbatim>\<open>soup.find_all(name, attr=True)\<close>: the tags of this name that have the attribute.\<close>

definition find_all_having :: "string \<Rightarrow> string \<Rightarrow> node \<Rightarrow> node list" where
  "find_all_having nm attr soup = filter (\<lambda>t. get_attr t attr \<noteq> None) (find_all [nm] soup)"

definition empty_anchor :: string where
  "empty_anchor = ''[Empty Anchor]''"

text \<open>\<^verbatim>\<open>counter[key]\<close>: the count, 0 for a key that is not there.\<close>

definition counter_get :: "('a \<times> nat) list \<Rightarrow> 'a \<Rightarrow> nat" where
  "counter_get d k = (case map_of d k of None \<Rightarrow> 0 | Some c \<Rightarrow> c)"

text \<open>
  One round of the loop of lines 367 to 398. The anchor text is counted before the scheme
  is looked at; an exception of \<^verbatim>\<open>urljoin\<close> or \<^verbatim>\<open>urlparse\<close> leaves the function.
\<close>

definition link_step ::
    "url_lib \<Rightarrow> string \<Rightarrow> string option \<Rightarrow> link_data \<Rightarrow> node \<Rightarrow> exc + link_data" where
  "link_step lib base_url base_domain ld link =
     (let href = get_attr_default link ''href'' [];
          anchor_text = get_text_strip [] link
      in case urljoin lib base_url href of
           Inl e \<Rightarrow> Inl e
         | Inr full_url \<Rightarrow>
             (let ld1 = ld\<lparr>anchor_texts :=
                          counter_add (if anchor_text \<noteq> [] then anchor_text else empty_anchor)
                            (anchor_texts ld)\<rparr>
              in case urlparse lib full_url of
                   Inl e \<Rightarrow> Inl e
                 | Inr parsed_href \<Rightarrow>
                     if scheme parsed_href = [] \<or> scheme parsed_href \<notin> set [''http'', ''https'']
                     then Inr (ld1\<lparr>links_all := links_all ld1 @
                                 [\<lparr>li_href = full_url, li_text = anchor_text, li_type = Other\<rparr>]\<rparr>)
                     else if get_domain lib full_url = base_domain
                     then Inr (ld1\<lparr>internal := internal ld1 @ [full_url],
                                    internal_count := internal_count ld1 + 1,
                                    links_all := links_all ld1 @
                                      [\<lparr>li_href = full_url, li_text = anchor_text,
                                        li_type = Internal\<rparr>]\<rparr>)
                     else Inr (ld1\<lparr>external := external ld1 @ [full_url],
                                    external_count := external_count ld1 + 1,
                                    links_all := links_all ld1 @
                                      [\<lparr>li_href = full_url, li_text = anchor_text,
                                        li_type = External\<rparr>]\<rparr>)))"

fun link_loop ::
    "url_lib \<Rightarrow> string \<Rightarrow> string option \<Rightarrow> link_data \<Rightarrow> node list \<Rightarrow> exc + link_data" where
  "link_loop lib base_url base_domain ld [] = Inr ld"
| "link_loop lib base_url base_domain ld (link # links) =
     (case link_step lib base_url base_domain ld link of
        Inl e \<Rightarrow> Inl e
      | Inr ld' \<Rightarrow> link_loop lib base_url base_domain ld' links)"

text \<open>The points of lines 400 to 413.\<close>

definition link_points :: "link_data \<Rightarrow> int" where
  "link_points ld =
     (let total_links = internal_count ld + external_count ld
      in if total_links > 0 then
           (let p1 = 0 + 5;
                p2 = (if internal_count ld > 0 \<and> external_count ld > 0 \<and> total_links > 5
                      then p1 + 5 else p1)
            in if length (anchor_texts ld) > 3
                  \<and> real (counter_get (anchor_texts ld) empty_anchor) < real total_links * 0.5
               then p2 + 5
               else if length (anchor_texts ld) > 1 then p2 + 2
               else p2)
         else 0)"

definition link_max_points :: int where "link_max_points = 15"

definition analyze_links :: "url_lib \<Rightarrow> node \<Rightarrow> string \<Rightarrow> exc + link_data \<times> real" where
  "analyze_links lib soup base_url =
     (let base_domain = get_domain lib base_url;
          links = find_all_having ''a'' ''href'' soup
      in case link_loop lib base_url base_domain link_data_start links of
           Inl e \<Rightarrow> Inl e
         | Inr ld \<Rightarrow> Inr (ld, category_score (link_points ld) link_max_points))"

text \<open>
  An instance of the parameter for examples. Its \<open>urlparse\<close> splits a scheme of letters,
  digits, \<open>+\<close>, \<open>-\<close> and \<open>.\<close> before the first colon and a network location after
  \<open>//\<close>; its \<open>urljoin\<close> gives back a reference that has a scheme, puts a reference that
  begins with \<open>/\<close> after the scheme and the network location of the base, and appends
  any other reference (a fragment) to the base. On the references of the examples below this
  is what \<^verbatim>\<open>urllib.parse\<close> does.
\<close>

definition is_scheme_char :: "char \<Rightarrow> bool" where
  "is_scheme_char c =
     (let n = (of_char c :: nat)
      in (48 \<le> n \<and> n \<le> 57) \<or> (65 \<le> n \<and> n \<le> 90) \<or> (97 \<le> n \<and> n \<le> 122)
         \<or> c = CHR ''+'' \<or> c = CHR ''-'' \<or> c = CHR ''.'')"

definition is_letter :: "char \<Rightarrow> bool" where
  "is_letter c =
     (let n = (of_char c :: nat) in (65 \<le> n \<and> n \<le> 90) \<or> (97 \<le> n \<and> n \<le> 122))"

definition split_scheme :: "string \<Rightarrow> string \<times> string" where
  "split_scheme url =
     (let pre = takeWhile (\<lambda>c. c \<noteq> CHR '':'') url
      in if pre \<noteq> [] \<and> length pre < length url \<and> is_letter (hd pre) \<and> list_all is_scheme_char pre
         then (str_lower pre, drop (length pre + 1) url)
         else ([], url))"

definition example_urlparse :: "string \<Rightarrow> exc + parse_result" where
  "example_urlparse url =
     (case split_scheme url of
        (s, rest) \<Rightarrow>
          Inr \<lparr>scheme = s,
               netloc = (if take 2 rest = ''//''
                         then takeWhile (\<lambda>c. c \<notin> set ''/?#'') (drop 2 rest) else [])\<rparr>)"

definition example_urljoin :: "string \<Rightarrow> string \<Rightarrow> exc + string" where
  "example_urljoin base url =
     (if fst (split_scheme url) \<noteq> [] then Inr url
      else if take 1 url = ''/'' then
        (case example_urlparse base of
           Inl e \<Rightarrow> Inl e
         | Inr p \<Rightarrow> Inr (scheme p @ ''://'' @ netloc p @ url))
      else Inr (base @ url))"

definition example_lib :: url_lib where
  "example_lib = \<lparr>urljoin = example_urljoin, urlparse = example_urlparse\<rparr>"

text \<open>An anchor with a reference and a text.\<close>

definition anchor :: "string \<Rightarrow> string \<Rightarrow> node" where
  "anchor href_value label = Tag ''a'' [(''href'', href_value)] [NavigableString label]"

definition anchors_soup :: "node list \<Rightarrow> node" where
  "anchors_soup links = Tag ''[document]'' [] [Tag ''html'' [] [Tag ''body'' [] links]]"

section \<open>Statements of the specification\<close>

subsection \<open>Headings\<close>

text \<open>
  The headings that the loop does not skip, their levels, and the number of first-level
  headings among them.
\<close>

definition nonempty_headings :: "node \<Rightarrow> node list" where
  "nonempty_headings soup = filter (\<lambda>h. get_text_strip [] h \<noteq> []) (find_all heading_names soup)"

definition heading_levels :: "node \<Rightarrow> nat list" where
  "heading_levels soup = map (\<lambda>h. heading_level (tag_name h)) (nonempty_headings soup)"

definition h1_count :: "node \<Rightarrow> nat" where
  "h1_count soup = length (filter (\<lambda>h. tag_name h = ''h1'') (nonempty_headings soup))"

text \<open>
  The specification's validity: no heading's level exceeds the level of the heading before
  it by more than one.
\<close>

fun hierarchy_valid :: "nat list \<Rightarrow> bool" where
  "hierarchy_valid [] = True"
| "hierarchy_valid [x] = True"
| "hierarchy_valid (x # y # zs) = (y \<le> x + 1 \<and> hierarchy_valid (y # zs))"

text \<open>
  The specification's points: 5 with a first-level heading, 2 less and the hierarchy forced
  invalid with more than one, then 3 more for a valid hierarchy or 1 more for an invalid
  one; nothing without a first-level heading.
\<close>

definition spec_heading_points :: "nat \<Rightarrow> bool \<Rightarrow> int" where
  "spec_heading_points h1s valid_scan =
     (let base = (if h1s > 0 then 5 else 0);
          penalty = (if h1s > 1 then 2 else 0);
          valid = (valid_scan \<and> \<not> h1s > 1);
          bonus = (if valid \<and> h1s > 0 then 3 else if h1s > 0 then 1 else 0)
      in base - penalty + bonus)"

text \<open>The flag read from a given last level, as the loop tests it.\<close>

fun chain_ok :: "nat \<Rightarrow> nat list \<Rightarrow> bool" where
  "chain_ok l [] = True"
| "chain_ok l (x # xs) = (\<not> (x > l + 1 \<and> l \<noteq> 0) \<and> chain_ok x xs)"

text \<open>A document of headings with these tag names, each with a text.\<close>

definition heading_soup :: "string list \<Rightarrow> node" where
  "heading_soup names = Tag ''[document]'' [] (map (\<lambda>n. Tag n [] [NavigableString ''T'']) names)"

subsection \<open>Keywords\<close>



subsection \<open>Images\<close>

text \<open>An image has an alternative text when its \<^verbatim>\<open>alt\<close> attribute is not blank.\<close>

definition has_alt_text :: "node \<Rightarrow> bool" where
  "has_alt_text img = (str_strip (get_attr_default img ''alt'' []) \<noteq> [])"

text \<open>
  The document \<^verbatim>\<open><html><body><nav><img src="logo.png"></nav></body></html>\<close>.
\<close>

definition nav_image_soup :: node where
  "nav_image_soup =
     Tag ''[document]'' []
       [Tag ''html'' []
          [Tag ''body'' []
             [Tag ''nav'' [] [Tag ''img'' [(''src'', ''logo.png'')] []]]]]"

section \<open>Properties\<close>

lemmas weight_defs = weight_meta_def weight_content_def weight_links_def weight_tech_def

text \<open>
  C2. The overall score is the linear combination of the four category percentages with the
  fixed weights 0.20 (meta), 0.35 (content), 0.15 (links) and 0.30 (technical); the weights sum
  to 1; the combination is linear in its four arguments; all four at 100 give 100 and all four
  at 0 give 0. The function is total: there is no error case.
\<close>

theorem overall_score_linear_combination:
  "overall_score m c l t = 0.20 * m + 0.35 * c + 0.15 * l + 0.30 * t
   \<and> weight_meta + weight_content + weight_links + weight_tech = 1
   \<and> overall_score (k * m + m') (k * c + c') (k * l + l') (k * t + t')
       = k * overall_score m c l t + overall_score m' c' l' t'
   \<and> overall_score 100 100 100 100 = 100
   \<and> overall_score 0 0 0 0 = 0"
  by (simp add: overall_score_def weight_defs algebra_simps add_divide_distrib)


subsection \<open>Headings\<close>

lemma heading_step_empty: "get_text_strip [] h = [] \<Longrightarrow> heading_step st h = st"
  by (simp add: heading_step_def)

lemma foldl_heading_step_filter:
  "foldl heading_step st hs = foldl heading_step st (filter (\<lambda>h. get_text_strip [] h \<noteq> []) hs)"
  by (induction hs arbitrary: st) (simp_all add: heading_step_empty)

lemma heading_latch: "\<not> heading_hierarchy_ok st \<Longrightarrow> \<not> heading_hierarchy_ok (foldl heading_step st hs)"
proof (induction hs arbitrary: st)
  case Nil then show ?case by simp
next
  case (Cons h hs)
  have "\<not> heading_hierarchy_ok (heading_step st h)"
    using Cons.prems by (simp add: heading_step_def Let_def)
  then show ?case using Cons.IH by simp
qed

lemma heading_step_ok:
  "get_text_strip [] h \<noteq> [] \<Longrightarrow>
   heading_hierarchy_ok (heading_step st h)
     = (heading_hierarchy_ok st \<and>
        \<not> (heading_level (tag_name h) > last_level st + 1 \<and> last_level st \<noteq> 0))"
  by (simp add: heading_step_def Let_def)

lemma heading_step_last:
  "get_text_strip [] h \<noteq> [] \<Longrightarrow> last_level (heading_step st h) = heading_level (tag_name h)"
  by (simp add: heading_step_def Let_def)

lemma scan_ok_chain:
  "\<forall>h \<in> set hs. get_text_strip [] h \<noteq> [] \<Longrightarrow>
   heading_hierarchy_ok (foldl heading_step st hs)
     = (heading_hierarchy_ok st \<and> chain_ok (last_level st) (map (\<lambda>h. heading_level (tag_name h)) hs))"
proof (induction hs arbitrary: st)
  case Nil then show ?case by simp
next
  case (Cons h hs)
  have ne: "get_text_strip [] h \<noteq> []" using Cons.prems by simp
  have "heading_hierarchy_ok (foldl heading_step (heading_step st h) hs)
     = (heading_hierarchy_ok (heading_step st h) \<and>
        chain_ok (last_level (heading_step st h)) (map (\<lambda>h. heading_level (tag_name h)) hs))"
    using Cons.IH Cons.prems by simp
  then show ?case
    by (simp only: foldl_Cons list.map chain_ok.simps heading_step_ok [OF ne]
          heading_step_last [OF ne]) blast
qed

lemma chain_ok_valid:
  "\<forall>x \<in> set xs. 0 < x \<Longrightarrow> 0 < l \<Longrightarrow> chain_ok l xs = hierarchy_valid (l # xs)"
  by (induction xs arbitrary: l) auto

lemma chain_ok_start: "\<forall>x \<in> set xs. 0 < x \<Longrightarrow> chain_ok 0 xs = hierarchy_valid xs"
  by (cases xs) (simp_all add: chain_ok_valid)

lemma tag_named_level: "tag_named heading_names h \<Longrightarrow> 0 < heading_level (tag_name h)"
  by (cases h) (auto simp add: heading_names_def heading_level_def)

lemma heading_levels_pos: "\<forall>x \<in> set (heading_levels soup). 0 < x"
  by (auto simp add: heading_levels_def nonempty_headings_def find_all_def tag_named_level)

lemma scan_headings_ok: "heading_hierarchy_ok (scan_headings soup) = hierarchy_valid (heading_levels soup)"
proof -
  have "heading_hierarchy_ok (scan_headings soup)
      = heading_hierarchy_ok (foldl heading_step heading_scan_start (nonempty_headings soup))"
    unfolding scan_headings_def nonempty_headings_def
    using foldl_heading_step_filter by simp
  also have "\<dots> = chain_ok 0 (heading_levels soup)"
    using scan_ok_chain [of "nonempty_headings soup" heading_scan_start]
    by (simp add: nonempty_headings_def heading_levels_def heading_scan_start_def)
  finally show ?thesis using chain_ok_start heading_levels_pos by simp
qed

lemma dict_get_list_append:
  "dict_get_list (dict_append k v d) k'
     = (if k' = k then dict_get_list d k @ [v] else dict_get_list d k')"
  by (induction d) (auto simp add: dict_get_list_def)

lemma heading_step_headings:
  "get_text_strip [] h \<noteq> [] \<Longrightarrow>
   headings (heading_step st h) = dict_append (tag_name h) (get_text_strip [] h) (headings st)"
  by (simp add: heading_step_def Let_def)

lemma heading_step_has_h1:
  "get_text_strip [] h \<noteq> [] \<Longrightarrow>
   has_h1 (heading_step st h) = (has_h1 st \<or> tag_name h = ''h1'')"
  by (simp add: heading_step_def Let_def)

lemma scan_h1_list:
  "\<forall>h \<in> set hs. get_text_strip [] h \<noteq> [] \<Longrightarrow>
   length (dict_get_list (headings (foldl heading_step st hs)) ''h1'')
     = length (dict_get_list (headings st) ''h1'')
       + length (filter (\<lambda>h. tag_name h = ''h1'') hs)"
proof (induction hs arbitrary: st)
  case Nil then show ?case by simp
next
  case (Cons h hs)
  have ne: "get_text_strip [] h \<noteq> []" using Cons.prems by simp
  have "length (dict_get_list (headings (foldl heading_step (heading_step st h) hs)) ''h1'')
     = length (dict_get_list (headings (heading_step st h)) ''h1'')
       + length (filter (\<lambda>h. tag_name h = ''h1'') hs)"
    using Cons.IH Cons.prems by simp
  then show ?case
    by (simp add: heading_step_headings [OF ne] dict_get_list_append)
qed

lemma scan_has_h1:
  "\<forall>h \<in> set hs. get_text_strip [] h \<noteq> [] \<Longrightarrow>
   has_h1 (foldl heading_step st hs) = (has_h1 st \<or> filter (\<lambda>h. tag_name h = ''h1'') hs \<noteq> [])"
proof (induction hs arbitrary: st)
  case Nil then show ?case by simp
next
  case (Cons h hs)
  have ne: "get_text_strip [] h \<noteq> []" using Cons.prems by simp
  have "has_h1 (foldl heading_step (heading_step st h) hs)
     = (has_h1 (heading_step st h) \<or> filter (\<lambda>h. tag_name h = ''h1'') hs \<noteq> [])"
    using Cons.IH Cons.prems by simp
  then show ?case
    by (simp add: heading_step_has_h1 [OF ne])
qed

lemma scan_headings_nonempty:
  "scan_headings soup = foldl heading_step heading_scan_start (nonempty_headings soup)"
  unfolding scan_headings_def nonempty_headings_def
  using foldl_heading_step_filter by simp

lemma nonempty_headings_ne: "\<forall>h \<in> set (nonempty_headings soup). get_text_strip [] h \<noteq> []"
  by (simp add: nonempty_headings_def)

lemma scan_headings_h1_count:
  "length (dict_get_list (headings (scan_headings soup)) ''h1'') = h1_count soup"
  using scan_h1_list [where st = heading_scan_start and hs = "nonempty_headings soup"]
  by (simp add: nonempty_headings_ne scan_headings_nonempty h1_count_def heading_scan_start_def dict_get_list_def)

lemma scan_headings_has_h1: "has_h1 (scan_headings soup) = (h1_count soup > 0)"
  using scan_has_h1 [where st = heading_scan_start and hs = "nonempty_headings soup"]
  by (simp add: nonempty_headings_ne scan_headings_nonempty h1_count_def heading_scan_start_def)

lemma heading_scoring_spec:
  "heading_scoring (scan_headings soup)
     = (spec_heading_points (h1_count soup) (hierarchy_valid (heading_levels soup)),
        hierarchy_valid (heading_levels soup) \<and> \<not> h1_count soup > 1)"
  by (simp add: heading_scoring_def scan_headings_has_h1 scan_headings_h1_count
        scan_headings_ok spec_heading_points_def Let_def)

lemma heading_levels_121: "heading_levels (heading_soup [''h1'', ''h2'', ''h1'']) = [1, 2, 1]"
  by (simp add: heading_levels_def nonempty_headings_def heading_soup_def find_all_def
        heading_names_def heading_level_def get_text_strip_def str_strip_def is_space_def)

lemma heading_levels_123: "heading_levels (heading_soup [''h1'', ''h2'', ''h3'']) = [1, 2, 3]"
  by (simp add: heading_levels_def nonempty_headings_def heading_soup_def find_all_def
        heading_names_def heading_level_def get_text_strip_def str_strip_def is_space_def)

lemma heading_levels_13: "heading_levels (heading_soup [''h1'', ''h3'']) = [1, 3]"
  by (simp add: heading_levels_def nonempty_headings_def heading_soup_def find_all_def
        heading_names_def heading_level_def get_text_strip_def str_strip_def is_space_def)

lemma h1_count_121: "h1_count (heading_soup [''h1'', ''h2'', ''h1'']) = 2"
  by (simp add: h1_count_def nonempty_headings_def heading_soup_def find_all_def
        heading_names_def get_text_strip_def str_strip_def is_space_def)

text \<open>
  C5. After the loop over the headings the flag says that no non-empty heading is more than
  one level below the non-empty heading before it (a first heading and a step upwards never
  clear it); once cleared, the flag stays cleared; the points and the flag after lines 258 to
  266 are those of the specification: 5 for a first-level heading, 2 less and invalid with
  more than one, then 3 more if valid and 1 more if not, nothing without a first-level
  heading. Levels 1, 2, 3 are valid and levels 1, 3 are not; two first-level headings give
  4 points whatever the flag was.
\<close>

theorem heading_analysis:
  "heading_hierarchy_ok (scan_headings soup) = hierarchy_valid (heading_levels soup)
   \<and> (\<not> heading_hierarchy_ok st \<longrightarrow> \<not> heading_hierarchy_ok (foldl heading_step st hs))
   \<and> heading_scoring (scan_headings soup)
       = (spec_heading_points (h1_count soup) (hierarchy_valid (heading_levels soup)),
          hierarchy_valid (heading_levels soup) \<and> \<not> h1_count soup > 1)
   \<and> hierarchy_valid [1, 2, 3] \<and> \<not> hierarchy_valid [1, 3]
   \<and> (y \<le> x \<longrightarrow> hierarchy_valid (x # y # zs) = hierarchy_valid (y # zs))
   \<and> spec_heading_points 2 valid = 5 - 2 + 1
   \<and> spec_heading_points 0 valid = 0"
  using scan_headings_ok [of soup] heading_latch [of st hs] heading_scoring_spec [of soup]
  by (simp add: spec_heading_points_def)

theorem heading_analysis_witness:
  "heading_hierarchy_ok (scan_headings (heading_soup [''h1'', ''h2'', ''h3'']))
   \<and> \<not> heading_hierarchy_ok (scan_headings (heading_soup [''h1'', ''h3'']))
   \<and> h1_count (heading_soup [''h1'', ''h2'', ''h1'']) = 2
   \<and> heading_scoring (scan_headings (heading_soup [''h1'', ''h2'', ''h1''])) = (4, False)
   \<and> \<not> heading_hierarchy_ok (heading_scan_start\<lparr>heading_hierarchy_ok := False\<rparr>)
   \<and> \<not> heading_hierarchy_ok
         (foldl heading_step (heading_scan_start\<lparr>heading_hierarchy_ok := False\<rparr>)
            [Tag ''h1'' [] [NavigableString ''T'']])
   \<and> (1::nat) \<le> 3 \<and> hierarchy_valid [3, 1, 2] = hierarchy_valid [1, 2]"
  using heading_analysis [of "heading_soup [''h1'', ''h2'', ''h3'']"
          "heading_scan_start\<lparr>heading_hierarchy_ok := False\<rparr>"
          "[Tag ''h1'' [] [NavigableString ''T'']]" 1 3 "[2]" True]
        heading_analysis [of "heading_soup [''h1'', ''h3'']"]
        heading_analysis [of "heading_soup [''h1'', ''h2'', ''h1'']"]
  by (simp add: heading_levels_121 heading_levels_123 heading_levels_13 h1_count_121
        spec_heading_points_def)



subsection \<open>Keywords\<close>








































subsection \<open>Images\<close>

lemma image_step_total: "total (image_step an img) = total an"
  by (simp add: image_step_def Let_def)

lemma image_step_with_alt:
  "with_alt (image_step an img) = with_alt an + (if has_alt_text img then 1 else 0)"
  by (simp add: image_step_def has_alt_text_def Let_def)

lemma foldl_image_step_total: "total (foldl image_step an imgs) = total an"
  by (induction imgs arbitrary: an) (simp_all add: image_step_total)

lemma foldl_image_step_with_alt:
  "with_alt (foldl image_step an imgs) = with_alt an + length (filter has_alt_text imgs)"
  by (induction imgs arbitrary: an) (simp_all add: image_step_with_alt)

lemma analyze_images_total: "total (analyze_images imgs) = length imgs"
  by (simp add: analyze_images_def foldl_image_step_total)

lemma analyze_images_with_alt: "with_alt (analyze_images imgs) = length (filter has_alt_text imgs)"
  by (simp add: analyze_images_def foldl_image_step_with_alt)

lemma percent_threshold:
  fixes a n k :: nat
  assumes "0 < n"
  shows "(real k \<le> (real a / real n) * 100) = (k * n \<le> 100 * a)"
proof -
  have "(real k \<le> (real a / real n) * 100) = (real k * real n \<le> real a * 100)"
    using assms by (simp add: pos_le_divide_eq)
  also have "\<dots> = (real (k * n) \<le> real (100 * a))"
    by (simp add: mult.commute)
  also have "\<dots> = (k * n \<le> 100 * a)"
    by (simp only: of_nat_le_iff)
  finally show ?thesis .
qed

lemma image_points_rule:
  "image_points (analyze_images imgs)
     = (if imgs = [] then 4
        else if 90 * length imgs \<le> 100 * length (filter has_alt_text imgs) then 4
        else if 50 * length imgs \<le> 100 * length (filter has_alt_text imgs) then 2
        else 0)"
proof (cases "imgs = []")
  case True
  then show ?thesis by (simp add: image_points_def analyze_images_total)
next
  case False
  then have pos: "0 < length imgs" by simp
  have a: "(90 \<le> (real (length (filter has_alt_text imgs)) / real (length imgs)) * 100)
       = (90 * length imgs \<le> 100 * length (filter has_alt_text imgs))"
    using percent_threshold [OF pos, of 90 "length (filter has_alt_text imgs)"] by simp
  have b: "(50 \<le> (real (length (filter has_alt_text imgs)) / real (length imgs)) * 100)
       = (50 * length imgs \<le> 100 * length (filter has_alt_text imgs))"
    using percent_threshold [OF pos, of 50 "length (filter has_alt_text imgs)"] by simp
  show ?thesis
    using False
    by (simp only: image_points_def analyze_images_total analyze_images_with_alt Let_def a b)
       simp
qed

text \<open>
  C7. The rule itself is as claimed (lemma \<open>image_points_rule\<close>), over the images that
  line 329 finds. These are not the images of the document: line 273 has removed the
  \<^verbatim>\<open>nav\<close>, \<^verbatim>\<open>footer\<close>, \<^verbatim>\<open>aside\<close>, \<^verbatim>\<open>script\<close> and \<^verbatim>\<open>style\<close> tags of the body from the
  soup before. A document whose only image stands in a \<^verbatim>\<open>nav\<close> tag and has no alternative
  text contains an image, none of its images has an alternative text, and it gets the 4
  points of a document without images, with a total of 0 images reported.
\<close>

theorem image_points_after_removal:
  "find_all [''img''] nav_image_soup = [Tag ''img'' [(''src'', ''logo.png'')] []]
   \<and> \<not> has_alt_text (Tag ''img'' [(''src'', ''logo.png'')] [])
   \<and> images_found nav_image_soup = []
   \<and> total (image_alts (fst (analyze_on_page_content f nav_image_soup))) = 0
   \<and> image_points (image_alts (fst (analyze_on_page_content f nav_image_soup))) = 4"
  by (simp add: analyze_on_page_content_def Let_def images_found_def find_all_def
        nav_image_soup_def removed_tags_def analyze_images_def image_points_def
        has_alt_text_def get_attr_default_def str_strip_def)

subsection \<open>Content points\<close>

lemma heading_points_bounds: "0 \<le> heading_points soup \<and> heading_points soup \<le> 8"
  by (simp add: heading_points_def heading_scoring_def Let_def)

lemma length_points_bounds: "0 \<le> length_points wc \<and> length_points wc \<le> 5"
  by (simp add: length_points_def)

lemma readability_points_bounds:
  "0 \<le> snd (snd (readability f wc t)) \<and> snd (snd (readability f wc t)) \<le> 5"
  by (simp add: readability_def split: option.split)

lemma keyword_points_bounds: "0 \<le> keyword_points ks \<and> keyword_points ks \<le> 5"
  by (simp add: keyword_points_def)

lemma image_points_bounds: "0 \<le> image_points an \<and> image_points an \<le> 4"
  by (simp add: image_points_def Let_def)

lemma content_points_bounds: "0 \<le> content_points f soup \<and> content_points f soup \<le> 27"
  using heading_points_bounds [of soup] length_points_bounds [of "word_count_of soup"]
    readability_points_bounds [of f "word_count_of soup" "text_content_of soup"]
    keyword_points_bounds [of "top_keywords_of (word_count_of soup) (text_content_of soup)"]
    image_points_bounds [of "analyze_images (images_found soup)"]
  by (simp add: content_points_def Let_def)

lemma category_score_mono:
  "p \<le> q \<Longrightarrow> 0 < m \<Longrightarrow> category_score p m \<le> category_score q m"
  by (simp add: category_score_def divide_right_mono)

text \<open>
  C10. The content points are never negative and never more than 27, while the declared
  maximum is 30: the headings give at most 5 + 3, the length at most 5, the readability at
  most 5, the keywords at most 5 and the images at most 4. The content score is therefore at
  most 90 and never 100.
\<close>

theorem content_points_range:
  "0 \<le> content_points f soup \<and> content_points f soup \<le> 27
   \<and> content_max_points = 30
   \<and> heading_points soup \<le> 5 + 3 \<and> length_points wc \<le> 5
   \<and> snd (snd (readability f wc t)) \<le> 5 \<and> keyword_points ks \<le> 5 \<and> image_points an \<le> 4
   \<and> fst (snd (analyze_on_page_content f soup)) \<le> 90
   \<and> fst (snd (analyze_on_page_content f soup)) \<noteq> 100"
proof -
  have "category_score (content_points f soup) 30 \<le> category_score 27 30"
    using content_points_bounds [of f soup] by (intro category_score_mono) simp_all
  then have "fst (snd (analyze_on_page_content f soup)) \<le> 90"
    by (simp add: analyze_on_page_content_def Let_def content_max_points_def category_score_def)
  then show ?thesis
    using content_points_bounds [of f soup] heading_points_bounds [of soup]
      length_points_bounds [of wc] readability_points_bounds [of f wc t]
      keyword_points_bounds [of ks] image_points_bounds [of an]
    by (simp add: content_max_points_def)
qed


end
